theory Spec2Isabelle
  imports Complex_Main "HOL-Library.Word"
begin

section \<open>JavaScript values\<close>

text \<open>
  The triad store (\<^verbatim>\<open>src/core/TriadMatrix.js\<close>), the wallet (\<^verbatim>\<open>src/core/Wallet.js\<close>) and
  the gossip node (\<^verbatim>\<open>src/network/P2PNode.js\<close>) are written by the heredocs of
  \<^verbatim>\<open>src/seirchain/setup_seirchain.sh\<close>. Arguments that the code inspects with \<^verbatim>\<open>!v\<close> and
  \<^verbatim>\<open>typeof v\<close> are JavaScript values; an object or array is kept as the list of its
  entries. Numbers are real numbers: rounding of IEEE doubles is not part of the model.
\<close>

datatype jsval =
    JUndefined
  | JNull
  | JBool bool
  | JNum real
  | JStr string
  | JObject "(string \<times> string) list"

fun truthy :: "jsval \<Rightarrow> bool" where
  "truthy JUndefined = False"
| "truthy JNull = False"
| "truthy (JBool b) = b"
| "truthy (JNum r) = (r \<noteq> 0)"
| "truthy (JStr s) = (s \<noteq> [])"
| "truthy (JObject kvs) = True"

fun typeof :: "jsval \<Rightarrow> string" where
  "typeof JUndefined = ''undefined''"
| "typeof JNull = ''object''"
| "typeof (JBool b) = ''boolean''"
| "typeof (JNum r) = ''number''"
| "typeof (JStr s) = ''string''"
| "typeof (JObject kvs) = ''object''"

section \<open>The triad store\<close>

subsection \<open>Data\<close>

record position =
  pos_x :: int
  pos_y :: int
  pos_z :: int

record triad =
  triad_id :: string
  data :: jsval
  validator :: string
  timestamp :: nat
  position :: position
  connections :: "string list"
  validated :: bool
  consensus :: real
  validationAttempts :: nat

record state_metadata =
  meta_dimensions :: real
  meta_complexity :: real
  meta_consensusThreshold :: real
  meta_validators :: "string list"
  lastUpdated :: nat

text \<open>
  The database is opened with \<^verbatim>\<open>valueEncoding: 'json'\<close>: what is stored under a key is a
  copy of the value, not the object itself.
\<close>

datatype db_value = DbTriad triad | DbMeta state_metadata

text \<open>
  Triads are JavaScript objects that \<^verbatim>\<open>this.matrix\<close> (an array), \<^verbatim>\<open>this.triads\<close> (a Map)
  and every value handed to a caller share by reference. The model keeps them in a heap
  of objects addressed by natural numbers; \<open>nextRef\<close> is the first address not yet
  allocated. \<open>effects\<close> records, in order, the writes the store has awaited and the events
  it has emitted. The database accepts every write: a rejected \<^verbatim>\<open>put\<close> (a storage fault) is
  not modelled, and one operation runs to its end before the next begins.
\<close>

type_synonym ref = nat

datatype effect = DbPut string db_value | Emit string ref

record triad_matrix =
  db :: "string \<rightharpoonup> db_value"
  dimensions :: real
  complexity :: real
  consensusThreshold :: real
  matrix :: "ref list"
  triads :: "(string \<times> ref) list"
  validators :: "string list"
  isInitialized :: bool
  heap :: "ref \<Rightarrow> triad"
  nextRef :: ref
  effects :: "effect list"

datatype error = NotInitialized | InvalidInput string | NotFound string

text \<open>
  What the environment supplies to one call of \<^verbatim>\<open>createTriad\<close>: the sixteen bytes of
  \<^verbatim>\<open>crypto.randomBytes(16)\<close>, the three results of \<^verbatim>\<open>Math.random()\<close> and the two readings
  of \<^verbatim>\<open>Date.now()\<close> (the triad's timestamp, and \<^verbatim>\<open>lastUpdated\<close> in \<^verbatim>\<open>saveMatrixState\<close>).
\<close>

record entropy =
  randomBytes16 :: "8 word list"
  random_x :: real
  random_y :: real
  random_z :: real
  now_created :: nat
  now_saved :: nat


subsection \<open>Map and Set of JavaScript\<close>

text \<open>
  \<^verbatim>\<open>Map.prototype.set\<close> replaces the value of a key that is present, in place, and appends a
  new key at the end; \<^verbatim>\<open>Map.prototype.get\<close> is \<open>map_of\<close>; \<^verbatim>\<open>Map.prototype.delete\<close> removes
  the key. \<^verbatim>\<open>[...new Set(xs)]\<close> keeps the first occurrence of every element.
\<close>

fun map_set :: "('k \<times> 'v) list \<Rightarrow> 'k \<Rightarrow> 'v \<Rightarrow> ('k \<times> 'v) list" where
  "map_set [] k v = [(k, v)]"
| "map_set ((k', v') # kvs) k v =
     (if k' = k then (k, v) # kvs else (k', v') # map_set kvs k v)"

definition map_delete :: "('k \<times> 'v) list \<Rightarrow> 'k \<Rightarrow> ('k \<times> 'v) list" where
  "map_delete kvs k = filter (\<lambda>kv. fst kv \<noteq> k) kvs"

fun uniq :: "'a list \<Rightarrow> 'a list" where
  "uniq [] = []"
| "uniq (x # xs) = x # filter (\<lambda>y. y \<noteq> x) (uniq xs)"

subsection \<open>Consensus scoring\<close>

definition calculateDistance :: "position \<Rightarrow> position \<Rightarrow> real" where
  "calculateDistance pos1 pos2 =
     sqrt ((real_of_int (pos_x pos1 - pos_x pos2))\<^sup>2 +
           (real_of_int (pos_y pos1 - pos_y pos2))\<^sup>2 +
           (real_of_int (pos_z pos1 - pos_z pos2))\<^sup>2)"

definition getTriadConnections :: "triad_matrix \<Rightarrow> triad \<Rightarrow> triad list" where
  "getTriadConnections m t =
     filter (\<lambda>c. if triad_id c = triad_id t then False
                 else (let distance = calculateDistance (position c) (position t)
                       in distance \<le> complexity m \<and> distance > 0))
       (map (heap m) (matrix m))"

definition calculateConnectionScore :: "triad_matrix \<Rightarrow> triad \<Rightarrow> triad \<Rightarrow> real" where
  "calculateConnectionScore m triad1 triad2 =
     (let distance = calculateDistance (position triad1) (position triad2)
      in if distance > complexity m then 0
         else max 0 (1 - distance / complexity m))"

definition calculateConsensus :: "triad_matrix \<Rightarrow> triad \<Rightarrow> string \<Rightarrow> real" where
  "calculateConsensus m t currentValidatorId =
     (let conns = getTriadConnections m t
      in if length conns = 0 then 0
         else
           (let validationScores =
                  map (\<lambda>conn. if validated conn then calculateConnectionScore m t conn
                              else 0.5 * calculateConnectionScore m t conn) conns;
                selfValidationFactor =
                  (if currentValidatorId \<in> set (validators m) then 0.1 else 0.05);
                averageScore =
                  foldl (\<lambda>a b. a + b) 0 validationScores / real (length validationScores)
            in min 1 (averageScore + selfValidationFactor)))"

subsection \<open>Operations\<close>

definition triad_key :: "string \<Rightarrow> string" where
  "triad_key i = ''triad:'' @ i"

definition saveMatrixState :: "triad_matrix \<Rightarrow> nat \<Rightarrow> triad_matrix" where
  "saveMatrixState m now =
     (let stateMetadata =
            \<lparr> meta_dimensions = dimensions m,
              meta_complexity = complexity m,
              meta_consensusThreshold = consensusThreshold m,
              meta_validators = validators m,
              lastUpdated = now \<rparr>
      in m\<lparr> db := (db m)(''matrix:state_metadata'' \<mapsto> DbMeta stateMetadata),
            effects := effects m @ [DbPut ''matrix:state_metadata'' (DbMeta stateMetadata)] \<rparr>)"

definition validateTriad ::
  "triad_matrix \<Rightarrow> string \<Rightarrow> string \<Rightarrow> error + (ref \<times> triad_matrix)" where
  "validateTriad m triadId validatorId =
     (if \<not> isInitialized m then Inl NotInitialized
      else case map_of (triads m) triadId of
        None \<Rightarrow> Inl (NotFound triadId)
      | Some r \<Rightarrow>
          (let t = heap m r in
           if validated t then Inr (r, m)
           else
             (let consensusScore = calculateConsensus m t validatorId;
                  t1 = t\<lparr> consensus := consensusScore,
                          validationAttempts := validationAttempts t + 1 \<rparr>;
                  t2 = (if consensusScore \<ge> consensusThreshold m
                        then t1\<lparr> validated := True \<rparr> else t1)
              in Inr (r, m\<lparr> heap := (heap m)(r := t2),
                           db := (db m)(triad_key triadId \<mapsto> DbTriad t2),
                           effects := effects m @
                             [DbPut (triad_key triadId) (DbTriad t2),
                              Emit ''triadValidated'' r] \<rparr>))))"

text \<open>
  \<^verbatim>\<open>crypto.randomBytes(16).toString('hex')\<close>: two lowercase hexadecimal digits per byte.
\<close>

definition hexDigit :: "nat \<Rightarrow> char" where
  "hexDigit n = ''0123456789abcdef'' ! n"

definition toHex :: "8 word list \<Rightarrow> string" where
  "toHex bytes = concat (map (\<lambda>b. [hexDigit (unat b div 16), hexDigit (unat b mod 16)]) bytes)"

definition generateTriadId :: "entropy \<Rightarrow> string" where
  "generateTriadId e = toHex (randomBytes16 e)"

definition calculateOptimalPosition :: "triad_matrix \<Rightarrow> entropy \<Rightarrow> position" where
  "calculateOptimalPosition m e =
     \<lparr> pos_x = \<lfloor>random_x e * dimensions m\<rfloor>,
       pos_y = \<lfloor>random_y e * dimensions m\<rfloor>,
       pos_z = \<lfloor>random_z e * dimensions m\<rfloor> \<rparr>"

definition createTriad ::
  "triad_matrix \<Rightarrow> entropy \<Rightarrow> jsval \<Rightarrow> jsval \<Rightarrow> error + (ref \<times> triad_matrix)" where
  "createTriad m e dat vdr =
     (if \<not> isInitialized m then Inl NotInitialized
      else if \<not> truthy dat \<or> (typeof dat \<noteq> ''object'' \<and> typeof dat \<noteq> ''string'')
        then Inl (InvalidInput ''Invalid data format for triad'')
      else if \<not> truthy vdr \<or> typeof vdr \<noteq> ''string''
        then Inl (InvalidInput ''Invalid validator ID'')
      else case vdr of
        JStr v \<Rightarrow>
          (let t = \<lparr> triad_id = generateTriadId e,
                     data = dat,
                     validator = v,
                     timestamp = now_created e,
                     position = calculateOptimalPosition m e,
                     connections = [],
                     validated = False,
                     consensus = 0,
                     validationAttempts = 0 \<rparr>;
               r = nextRef m;
               m1 = m\<lparr> heap := (heap m)(r := t), nextRef := Suc r,
                       matrix := matrix m @ [r],
                       triads := map_set (triads m) (triad_id t) r \<rparr>;
               m2 = m1\<lparr> db := (db m1)(triad_key (triad_id t) \<mapsto> DbTriad t),
                        effects := effects m1 @ [DbPut (triad_key (triad_id t)) (DbTriad t)] \<rparr>;
               m3 = saveMatrixState m2 (now_saved e)
           in Inr (r, m3\<lparr> effects := effects m3 @ [Emit ''triadCreated'' r] \<rparr>))
      | _ \<Rightarrow> Inl (InvalidInput ''Invalid validator ID''))"

text \<open>
  \<^verbatim>\<open>getTriad\<close> reads the database, not the in-memory index; \<open>None\<close> is the \<^verbatim>\<open>null\<close> it returns
  for a key that is not found.
\<close>

definition getTriad :: "triad_matrix \<Rightarrow> string \<Rightarrow> error + db_value option" where
  "getTriad m triadId =
     (if \<not> isInitialized m then Inl NotInitialized
      else Inr (db m (triad_key triadId)))"

text \<open>
  The object \<^verbatim>\<open>getMatrixState\<close> returns: the numbers are copied, the two arrays are new,
  and the elements of \<open>ms_triads\<close> are the store's own triad objects (references).
\<close>

record matrix_state =
  ms_dimensions :: real
  ms_complexity :: real
  triadsCount :: nat
  ms_triads :: "ref list"
  ms_validators :: "string list"
  ms_consensusThreshold :: real
  ms_isInitialized :: bool

definition getMatrixState :: "triad_matrix \<Rightarrow> matrix_state" where
  "getMatrixState m =
     \<lparr> ms_dimensions = dimensions m,
       ms_complexity = complexity m,
       triadsCount = length (matrix m),
       ms_triads = map snd (triads m),
       ms_validators = validators m,
       ms_consensusThreshold = consensusThreshold m,
       ms_isInitialized = isInitialized m \<rparr>"

definition addValidator ::
  "triad_matrix \<Rightarrow> jsval \<Rightarrow> nat \<Rightarrow> error + (bool \<times> triad_matrix)" where
  "addValidator m validatorId now =
     (if \<not> truthy validatorId \<or> typeof validatorId \<noteq> ''string''
        then Inl (InvalidInput ''Invalid validator ID for registration.'')
      else case validatorId of
        JStr v \<Rightarrow>
          (if v \<in> set (validators m) then Inr (False, m)
           else Inr (True, saveMatrixState (m\<lparr> validators := validators m @ [v] \<rparr>) now))
      | _ \<Rightarrow> Inl (InvalidInput ''Invalid validator ID for registration.''))"

text \<open>
  The constructor: \<^verbatim>\<open>options.dimensions || 3\<close> and its siblings take the default for a
  missing or zero option. The store is not initialized until \<^verbatim>\<open>init\<close> has loaded the
  persisted state; \<open>stored\<close> is what the database at \<^verbatim>\<open>dbPath\<close> holds.
\<close>

record options =
  opt_dimensions :: "real option"
  opt_complexity :: "real option"
  opt_consensusThreshold :: "real option"

definition or_default :: "real option \<Rightarrow> real \<Rightarrow> real" where
  "or_default v d = (case v of None \<Rightarrow> d | Some x \<Rightarrow> if x = 0 then d else x)"

definition new_TriadMatrix :: "(string \<rightharpoonup> db_value) \<Rightarrow> options \<Rightarrow> triad_matrix" where
  "new_TriadMatrix stored opts =
     \<lparr> db = stored,
       dimensions = or_default (opt_dimensions opts) 3,
       complexity = or_default (opt_complexity opts) 4,
       consensusThreshold = or_default (opt_consensusThreshold opts) 0.67,
       matrix = [],
       triads = [],
       validators = [],
       isInitialized = False,
       heap = (\<lambda>r. undefined),
       nextRef = 0,
       effects = [] \<rparr>"

text \<open>
  The operations of the store that callers use, and the state each leaves behind. An
  operation that throws has changed nothing: every check precedes the first assignment.
\<close>

datatype store_op =
    CreateTriad entropy jsval jsval
  | ValidateTriad string string
  | GetTriad string
  | GetMatrixState
  | AddValidator jsval nat

fun run_op :: "triad_matrix \<Rightarrow> store_op \<Rightarrow> triad_matrix" where
  "run_op m (CreateTriad e dat vdr) =
     (case createTriad m e dat vdr of Inl err \<Rightarrow> m | Inr (r, m') \<Rightarrow> m')"
| "run_op m (ValidateTriad triadId validatorId) =
     (case validateTriad m triadId validatorId of Inl err \<Rightarrow> m | Inr (r, m') \<Rightarrow> m')"
| "run_op m (GetTriad triadId) = m"
| "run_op m GetMatrixState = m"
| "run_op m (AddValidator validatorId now) =
     (case addValidator m validatorId now of Inl err \<Rightarrow> m | Inr (b, m') \<Rightarrow> m')"

subsection \<open>The consensus score as the specification words it\<close>




subsection \<open>Reading a snapshot\<close>

text \<open>
  What the holder of a snapshot reads in its \<^verbatim>\<open>triads\<close> array when the heap is \<open>h\<close>, and
  the part of a triad that no code path assigns after creation.
\<close>

definition view_triads :: "(ref \<Rightarrow> triad) \<Rightarrow> matrix_state \<Rightarrow> triad list" where
  "view_triads h s = map h (ms_triads s)"

definition created_fields ::
  "triad \<Rightarrow> string \<times> jsval \<times> string \<times> nat \<times> position \<times> string list" where
  "created_fields t =
     (triad_id t, data t, validator t, timestamp t, position t, connections t)"

text \<open>Every reference the in-memory index holds is an allocated object.\<close>

definition index_allocated :: "triad_matrix \<Rightarrow> bool" where
  "index_allocated m = list_all (\<lambda>r. r < nextRef m) (map snd (triads m))"

subsection \<open>Accepted arguments\<close>



subsection \<open>An example store\<close>

text \<open>
  The scenario of the specification: dimensions 3, complexity 4, threshold 0.67; a pending
  triad at the origin, a validated one at distance 2 and a validated one at distance 1,
  and one registered validator.
\<close>

definition triad_a :: triad where
  "triad_a =
     \<lparr> triad_id = ''000102030405060708090a0b0c0d0e0f'', data = JStr ''alpha'',
       validator = ''seir01'', timestamp = 1000,
       position = \<lparr> pos_x = 0, pos_y = 0, pos_z = 0 \<rparr>, connections = [],
       validated = False, consensus = 0, validationAttempts = 0 \<rparr>"

definition triad_b :: triad where
  "triad_b =
     \<lparr> triad_id = ''101112131415161718191a1b1c1d1e1f'', data = JStr ''beta'',
       validator = ''seir02'', timestamp = 1001,
       position = \<lparr> pos_x = 2, pos_y = 0, pos_z = 0 \<rparr>, connections = [],
       validated = True, consensus = 0.7, validationAttempts = 1 \<rparr>"

definition triad_c :: triad where
  "triad_c =
     \<lparr> triad_id = ''202122232425262728292a2b2c2d2e2f'', data = JStr ''gamma'',
       validator = ''seir02'', timestamp = 1002,
       position = \<lparr> pos_x = 0, pos_y = 1, pos_z = 0 \<rparr>, connections = [],
       validated = True, consensus = 0.7, validationAttempts = 1 \<rparr>"

definition example_store :: triad_matrix where
  "example_store =
     \<lparr> db = [''matrix:state_metadata'' \<mapsto> DbMeta
               \<lparr> meta_dimensions = 3, meta_complexity = 4, meta_consensusThreshold = 0.67,
                 meta_validators = [''seir02''], lastUpdated = 1003 \<rparr>,
             triad_key (triad_id triad_a) \<mapsto> DbTriad triad_a,
             triad_key (triad_id triad_b) \<mapsto> DbTriad triad_b,
             triad_key (triad_id triad_c) \<mapsto> DbTriad triad_c],
       dimensions = 3, complexity = 4, consensusThreshold = 0.67,
       matrix = [0, 1, 2],
       triads = [(triad_id triad_a, 0), (triad_id triad_b, 1), (triad_id triad_c, 2)],
       validators = [''seir02''],
       isInitialized = True,
       heap = (\<lambda>r. if r = 0 then triad_a else if r = 1 then triad_b else triad_c),
       nextRef = 3,
       effects = [] \<rparr>"

definition example_entropy :: entropy where
  "example_entropy =
     \<lparr> randomBytes16 = [0x30, 0x31, 0x32, 0x33, 0x34, 0x35, 0x36, 0x37,
                        0x38, 0x39, 0x3a, 0x3b, 0x3c, 0x3d, 0x3e, 0xff],
       random_x = 1 / 2, random_y = 0, random_z = 9 / 10,
       now_created = 2000, now_saved = 2001 \<rparr>"

section \<open>The gossip node\<close>

subsection \<open>Data\<close>

text \<open>
  A socket of the \<^verbatim>\<open>ws\<close> library is known by a number; the node reads its
  \<^verbatim>\<open>readyState\<close> and calls \<^verbatim>\<open>send\<close> and \<^verbatim>\<open>terminate\<close> on it. A field that a JSON message
  may lack is an option. The payload of \<^verbatim>\<open>NEW_TRIAD\<close> and of
  \<^verbatim>\<open>TRIAD_VALIDATED_CONFIRMATION\<close> is a triad, as the sending node serializes it, and the
  payload of \<^verbatim>\<open>STATUS_UPDATE\<close> is the snapshot with its triads serialized.
\<close>

datatype ready_state = CONNECTING | OPEN | CLOSING | CLOSED

type_synonym socket = nat

record peer =
  peer_ws :: socket
  peer_id :: string
  peer_direction :: string
  peer_url :: "string option"
  peer_connectedAt :: nat
  peer_nodeId :: "string option"
  peer_address :: "string option"

record handshake =
  hs_nodeId :: "string option"
  hs_networkId :: "string option"
  hs_address :: "string option"
  hs_timestamp :: nat

datatype message =
    HANDSHAKE handshake
  | DISCOVERY
  | PEERS "string list"
  | NEW_TRIAD triad
  | VALIDATE_TRIAD string string
  | TRIAD_VALIDATED triad
  | GET_STATUS
  | STATUS_UPDATE matrix_state "triad list"
  | ERROR string
  | UNKNOWN string

text \<open>
  What the node does to the outside, in order: a message handed to \<^verbatim>\<open>ws.send\<close>, a socket
  terminated, an outgoing connection opened with \<^verbatim>\<open>new WebSocket\<close>, and the node's own
  \<^verbatim>\<open>peerConnected\<close> and \<^verbatim>\<open>peerDisconnected\<close> events.
\<close>

datatype net_effect =
    Send socket message
  | Terminate socket
  | Connect string
  | EmitPeer string string

text \<open>
  \<open>selfAddress\<close> stands for \<^verbatim>\<open>isSelf\<close>, which matches an address against the node's own
  port on the loopback names and against the environment's advertised address.
\<close>

record p2p_node =
  nodeId :: string
  port :: nat
  triadMatrix :: "triad_matrix option"
  peers :: "(string \<times> peer) list"
  maxPeers :: nat
  networkId :: string
  selfAddress :: "string \<Rightarrow> bool"
  readyState :: "socket \<Rightarrow> ready_state"
  wire :: "net_effect list"

subsection \<open>Sockets and peers\<close>

text \<open>
  \<^verbatim>\<open>terminate\<close> of the \<^verbatim>\<open>ws\<close> library does nothing to a closed socket and otherwise leaves
  it closing (the \<^verbatim>\<open>close\<close> event follows later); in either case it is open no more.
\<close>

definition terminate :: "p2p_node \<Rightarrow> socket \<Rightarrow> p2p_node" where
  "terminate n ws =
     n\<lparr> readyState := (readyState n)(ws := (if readyState n ws = CLOSED then CLOSED else CLOSING)),
        wire := wire n @ [Terminate ws] \<rparr>"

definition sendMessage :: "p2p_node \<Rightarrow> socket \<Rightarrow> message \<Rightarrow> p2p_node" where
  "sendMessage n ws msg =
     (if readyState n ws = OPEN then n\<lparr> wire := wire n @ [Send ws msg] \<rparr> else n)"

definition broadcast :: "p2p_node \<Rightarrow> message \<Rightarrow> string option \<Rightarrow> p2p_node" where
  "broadcast n msg originatorPeerId =
     fold (\<lambda>(peerId, p) n'. if Some peerId \<noteq> originatorPeerId
                              then sendMessage n' (peer_ws p) msg else n')
       (peers n) n"

definition removePeer :: "p2p_node \<Rightarrow> string \<Rightarrow> p2p_node" where
  "removePeer n peerId =
     (case map_of (peers n) peerId of
        None \<Rightarrow> n
      | Some p \<Rightarrow>
          (let n1 = (if readyState n (peer_ws p) = OPEN \<or> readyState n (peer_ws p) = CONNECTING
                     then terminate n (peer_ws p) else n)
           in n1\<lparr> peers := map_delete (peers n1) peerId,
                   wire := wire n1 @ [EmitPeer ''peerDisconnected'' peerId] \<rparr>))"

definition findPeerIdByWs :: "p2p_node \<Rightarrow> socket \<Rightarrow> string option" where
  "findPeerIdByWs n wsInstance =
     (case filter (\<lambda>(i, p). peer_ws p = wsInstance) (peers n) of
        [] \<Rightarrow> None
      | (i, p) # rest \<Rightarrow> Some i)"

definition getPeerAddresses :: "p2p_node \<Rightarrow> string list" where
  "getPeerAddresses n =
     uniq (concat (map (\<lambda>(i, p).
        (case (peer_address p, peer_nodeId p) of
           (Some a, Some d) \<Rightarrow> if a \<noteq> [] \<and> d \<noteq> [] then [a] else []
         | _ \<Rightarrow> [])) (peers n)))"

definition isConnectedTo :: "p2p_node \<Rightarrow> string \<Rightarrow> bool" where
  "isConnectedTo n peerAddress =
     list_ex (\<lambda>(i, p). peer_url p = Some peerAddress \<or> peer_address p = Some peerAddress)
       (peers n)"

text \<open>
  \<^verbatim>\<open>connectToPeer\<close> opens the socket; the peer is added when the socket reports \<^verbatim>\<open>open\<close>,
  which is a later event.
\<close>

definition connectToPeer :: "p2p_node \<Rightarrow> string \<Rightarrow> p2p_node" where
  "connectToPeer n peerAddress =
     (if length (peers n) \<ge> maxPeers n then n
      else if list_ex (\<lambda>(i, p). peer_url p = Some peerAddress) (peers n) then n
      else n\<lparr> wire := wire n @ [Connect peerAddress] \<rparr>)"

subsection \<open>Handling a message\<close>

text \<open>
  The node subscribes to the store's \<^verbatim>\<open>triadCreated\<close> and \<^verbatim>\<open>triadValidated\<close> events and
  broadcasts the triad to every peer. \<open>announce n m m'\<close> does so for the events that took
  the store from \<open>m\<close> to \<open>m'\<close>.
\<close>

fun announce_effect :: "triad_matrix \<Rightarrow> effect \<Rightarrow> p2p_node \<Rightarrow> p2p_node" where
  "announce_effect m' (Emit name r) n =
     (if name = ''triadCreated'' then broadcast n (NEW_TRIAD (heap m' r)) None
      else if name = ''triadValidated'' then broadcast n (TRIAD_VALIDATED (heap m' r)) None
      else n)"
| "announce_effect m' (DbPut k v) n = n"

definition announce :: "p2p_node \<Rightarrow> triad_matrix \<Rightarrow> triad_matrix \<Rightarrow> p2p_node" where
  "announce n m m' = fold (announce_effect m') (drop (length (effects m)) (effects m')) n"

text \<open>
  \<^verbatim>\<open>handleMessage\<close>. The callbacks given to \<^verbatim>\<open>getTriad(...).then\<close> run after the synchronous
  part of the handler, so the re-broadcast comes first; a rejected promise (the store is not
  initialized, or \<^verbatim>\<open>createTriad\<close> throws) changes nothing. The database holds triads
  under the keys that start with \<^verbatim>\<open>triad:\<close>.
\<close>

definition handleMessage ::
  "p2p_node \<Rightarrow> entropy \<Rightarrow> socket \<Rightarrow> message \<Rightarrow> string \<Rightarrow> p2p_node" where
  "handleMessage n e ws msg peerId =
     (case map_of (peers n) peerId of
        None \<Rightarrow> terminate n ws
      | Some p \<Rightarrow>
          (case msg of
             HANDSHAKE hs \<Rightarrow>
               (if hs_networkId hs \<noteq> Some (networkId n)
                then removePeer (sendMessage n ws (ERROR ''Network ID mismatch'')) peerId
                else
                  (let n1 = n\<lparr> peers := map_set (peers n) peerId
                                 (p\<lparr> peer_nodeId := hs_nodeId hs,
                                     peer_address := hs_address hs \<rparr>) \<rparr>
                   in sendMessage n1 ws (PEERS (getPeerAddresses n1))))
           | DISCOVERY \<Rightarrow> sendMessage n ws (PEERS (getPeerAddresses n))
           | PEERS addrs \<Rightarrow>
               fold (\<lambda>peerAddr n'.
                       if peerAddr \<noteq> [] \<and> \<not> selfAddress n' peerAddr \<and> \<not> isConnectedTo n' peerAddr
                       then connectToPeer n' peerAddr else n')
                 addrs n
           | NEW_TRIAD t \<Rightarrow>
               (case triadMatrix n of
                  None \<Rightarrow> n
                | Some m \<Rightarrow>
                    (let n1 = broadcast n msg (Some peerId)
                     in case getTriad m (triad_id t) of
                          Inl err \<Rightarrow> n1
                        | Inr (Some existing) \<Rightarrow> n1
                        | Inr None \<Rightarrow>
                            (case createTriad m e (data t) (JStr (validator t)) of
                               Inl err \<Rightarrow> n1
                             | Inr (r, m') \<Rightarrow> announce (n1\<lparr> triadMatrix := Some m' \<rparr>) m m')))
           | VALIDATE_TRIAD triadId validatorId \<Rightarrow>
               (case triadMatrix n of
                  None \<Rightarrow> n
                | Some m \<Rightarrow>
                    (if triadId \<noteq> [] \<and> validatorId \<noteq> []
                     then (case validateTriad m triadId validatorId of
                             Inl err \<Rightarrow> n
                           | Inr (r, m') \<Rightarrow> announce (n\<lparr> triadMatrix := Some m' \<rparr>) m m')
                     else n))
           | TRIAD_VALIDATED t \<Rightarrow>
               (case triadMatrix n of
                  None \<Rightarrow> n
                | Some m \<Rightarrow>
                    (if triad_id t \<noteq> []
                     then
                       (let n1 = broadcast n msg (Some peerId)
                        in case getTriad m (triad_id t) of
                             Inr (Some (DbTriad localTriad)) \<Rightarrow>
                               (if \<not> validated localTriad \<and> validated t
                                then n1\<lparr> triadMatrix := Some
                                       (m\<lparr> db := (db m)(triad_key (triad_id t) \<mapsto> DbTriad t),
                                           effects := effects m @
                                             [DbPut (triad_key (triad_id t)) (DbTriad t)] \<rparr>) \<rparr>
                                else n1)
                           | _ \<Rightarrow> n1)
                     else n))
           | GET_STATUS \<Rightarrow>
               (case triadMatrix n of
                  None \<Rightarrow> n
                | Some m \<Rightarrow>
                    sendMessage n ws
                      (STATUS_UPDATE (getMatrixState m) (view_triads (heap m) (getMatrixState m))))
           | STATUS_UPDATE st ts \<Rightarrow>
               sendMessage n ws (ERROR ''Unknown message type: STATUS_UPDATE'')
           | ERROR reason \<Rightarrow> n
           | UNKNOWN ty \<Rightarrow> sendMessage n ws (ERROR (''Unknown message type: '' @ ty))))"

text \<open>
  The sockets a broadcast reaches: those of the peers in the map, in its order, other than
  the originator, that are open.
\<close>

definition recipients :: "p2p_node \<Rightarrow> string option \<Rightarrow> socket list" where
  "recipients n originatorPeerId =
     map (\<lambda>kv. peer_ws (snd kv))
       (filter (\<lambda>kv. Some (fst kv) \<noteq> originatorPeerId \<and> readyState n (peer_ws (snd kv)) = OPEN)
          (peers n))"

subsection \<open>An example node\<close>

text \<open>
  A node on the example store with three peers; the socket of the third is closing.
\<close>

definition example_peer :: "string \<Rightarrow> socket \<Rightarrow> peer" where
  "example_peer i s =
     \<lparr> peer_ws = s, peer_id = i, peer_direction = ''incoming'', peer_url = None,
       peer_connectedAt = 500, peer_nodeId = None, peer_address = None \<rparr>"

definition example_node :: p2p_node where
  "example_node =
     \<lparr> nodeId = ''node-0'', port = 6001, triadMatrix = Some example_store,
       peers = [(''peer-1'', example_peer ''peer-1'' 101),
                (''peer-2'', example_peer ''peer-2'' 102),
                (''peer-3'', example_peer ''peer-3'' 103)],
       maxPeers = 10, networkId = ''seirchain-default'',
       selfAddress = (\<lambda>a. False),
       readyState = (\<lambda>s. if s = 103 then CLOSING else OPEN),
       wire = [] \<rparr>"

definition example_handshake :: "string \<Rightarrow> handshake" where
  "example_handshake net =
     \<lparr> hs_nodeId = Some ''node-9'', hs_networkId = Some net,
       hs_address = Some ''ws://10.0.0.9:6001'', hs_timestamp = 3000 \<rparr>"

text \<open>
  The triad a peer announces as validated: the pending triad of the example store with
  its validation fields set.
\<close>

definition triad_a_validated :: triad where
  "triad_a_validated =
     triad_a\<lparr> validated := True, consensus := 0.9, validationAttempts := 1 \<rparr>"

section \<open>The wallet\<close>

text \<open>
  The \<^verbatim>\<open>elliptic\<close> and \<^verbatim>\<open>crypto\<close> libraries are parameters: \<open>keyFromPrivate\<close> and
  \<open>getPublic\<close> are the curve's, \<open>addressDigest\<close> is the hexadecimal RIPEMD-160 digest of the
  SHA-256 digest of the bytes a hexadecimal string encodes. Each returns \<open>Inl\<close> with the
  error's message where the library throws.
\<close>

record 'kp curve =
  keyFromPrivate :: "string \<Rightarrow> string + 'kp"
  getPublic :: "'kp \<Rightarrow> string + string"
  addressDigest :: "string \<Rightarrow> string + string"

record 'kp wallet =
  keyPair :: "'kp option"
  address :: "string option"
  publicKey :: "string option"

datatype wallet_error = InvalidFormat | ImportFailed string

definition isHexChar :: "char \<Rightarrow> bool" where
  "isHexChar c = (c \<in> set ''0123456789abcdefABCDEF'')"

text \<open>The regular expression \<^verbatim>\<open>/^[0-9a-fA-F]{64}$/\<close>.\<close>

definition privateKeyFormat :: "string \<Rightarrow> bool" where
  "privateKeyFormat s = (length s = 64 \<and> list_all isHexChar s)"

definition generateAddress :: "'kp curve \<Rightarrow> string \<Rightarrow> string + string option" where
  "generateAddress lib publicKeyHex =
     (if publicKeyHex = [] then Inr None
      else case addressDigest lib publicKeyHex of
        Inl err \<Rightarrow> Inl err
      | Inr hash2 \<Rightarrow> Inr (Some (''seir'' @ take 36 hash2)))"

definition importFromPrivateKey ::
  "'kp curve \<Rightarrow> 'kp wallet \<Rightarrow> string \<Rightarrow> (wallet_error + bool) \<times> 'kp wallet" where
  "importFromPrivateKey lib w privateKeyHex =
     (if \<not> privateKeyFormat privateKeyHex then (Inl InvalidFormat, w)
      else
        (let failed = (\<lambda>err. (Inl (ImportFailed (''Failed to import private key: '' @ err)),
                              w\<lparr> keyPair := None, publicKey := None, address := None \<rparr>))
         in case keyFromPrivate lib privateKeyHex of
              Inl err \<Rightarrow> failed err
            | Inr kp \<Rightarrow>
                (case getPublic lib kp of
                   Inl err \<Rightarrow> failed err
                 | Inr pub \<Rightarrow>
                     (case generateAddress lib pub of
                        Inl err \<Rightarrow> failed err
                      | Inr addr \<Rightarrow>
                          (Inr True, w\<lparr> keyPair := Some kp, publicKey := Some pub,
                                       address := addr \<rparr>)))))"

text \<open>
  Where the import fails after the format check: in \<open>keyFromPrivate\<close>, in \<open>getPublic\<close> or
  in the digest.
\<close>

definition import_failure :: "'kp curve \<Rightarrow> string \<Rightarrow> string option" where
  "import_failure lib privateKeyHex =
     (case keyFromPrivate lib privateKeyHex of
        Inl err \<Rightarrow> Some err
      | Inr kp \<Rightarrow>
          (case getPublic lib kp of
             Inl err \<Rightarrow> Some err
           | Inr pub \<Rightarrow>
               (case generateAddress lib pub of Inl err \<Rightarrow> Some err | Inr addr \<Rightarrow> None)))"

subsection \<open>An example wallet\<close>

text \<open>
  A stand-in library whose key pair is the private key itself and which rejects the zero
  key, and a wallet that holds a key.
\<close>

definition example_curve :: "string curve" where
  "example_curve =
     \<lparr> keyFromPrivate = (\<lambda>h. Inr h),
       getPublic = (\<lambda>kp. if kp = replicate 64 CHR ''0'' then Inl ''infinity'' else Inr (''02'' @ kp)),
       addressDigest = (\<lambda>pub. Inr (take 40 (rev pub))) \<rparr>"

definition example_wallet :: "string wallet" where
  "example_wallet =
     \<lparr> keyPair = Some (replicate 64 CHR ''a''),
       address = Some ''seiraaaaaaaaaaaaaaaaaaaaaaaaaaaaaaaaaaaa'',
       publicKey = Some (''02'' @ replicate 64 CHR ''a'') \<rparr>"

section \<open>Verified properties\<close>

subsection \<open>The consensus score\<close>














text \<open>The first scenario: the neighbour at distance 2 alone and an unregistered validator
  give 0.55, below the threshold.\<close>

lemma example_consensus_unregistered:
  "calculateConsensus (example_store\<lparr> matrix := [0, 1] \<rparr>) triad_a ''seir01'' = 11 / 20 \<and>
   11 / 20 < consensusThreshold example_store"
proof -
  have c: "getTriadConnections (example_store\<lparr> matrix := [0, 1] \<rparr>) triad_a = [triad_b]"
    by (simp add: getTriadConnections_def example_store_def triad_a_def triad_b_def
        calculateDistance_def Let_def)
  have s: "calculateConnectionScore (example_store\<lparr> matrix := xs \<rparr>) triad_a triad_b = 1 / 2"
    for xs
    by (simp add: calculateConnectionScore_def calculateDistance_def example_store_def
        triad_a_def triad_b_def Let_def)
  have v: "validated triad_b" by (simp add: triad_b_def)
  have r: "''seir01'' \<notin> set (validators example_store)" by (simp add: example_store_def)
  have "calculateConsensus (example_store\<lparr> matrix := [0, 1] \<rparr>) triad_a ''seir01'' = 11 / 20"
    unfolding calculateConsensus_def c Let_def by (simp add: s v r)
  then show ?thesis by (simp add: example_store_def)
qed


subsection \<open>Validation\<close>

lemma validateTriad_heap:
  assumes "validateTriad m i v = Inr (r, m')" and "validated (heap m q)"
  shows "validated (heap m' q)"
  using assms
  by (auto simp: validateTriad_def Let_def split: if_splits option.splits)

lemma createTriad_heap:
  assumes "createTriad m e dat vdr = Inr (r, m')" and "q < nextRef m"
  shows "heap m' q = heap m q"
  using assms
  by (auto simp: createTriad_def saveMatrixState_def Let_def split: if_splits jsval.splits)

lemma addValidator_heap:
  assumes "addValidator m vid now = Inr (b, m')"
  shows "heap m' = heap m"
  using assms
  by (auto simp: addValidator_def saveMatrixState_def Let_def split: if_splits jsval.splits)

lemma run_op_validated:
  assumes "q < nextRef m" and "validated (heap m q)"
  shows "validated (heap (run_op m op) q)"
proof (cases op)
  case (CreateTriad e dat vdr)
  then show ?thesis using assms
    by (auto split: sum.splits dest: createTriad_heap)
next
  case (ValidateTriad i v)
  then show ?thesis using assms
    by (auto split: sum.splits dest: validateTriad_heap)
next
  case (AddValidator vid now)
  then show ?thesis using assms
    by (auto split: sum.splits dest: addValidator_heap)
qed (use assms in simp_all)



text \<open>
  Claim C3. On an initialized store, \<^verbatim>\<open>validateTriad\<close> of a triad that is already
  validated returns that triad and leaves the whole store as it was: no new score, no
  further attempt counted, nothing written and nothing emitted.
\<close>

theorem validateTriad_validated_noop:
  assumes "isInitialized m" and "map_of (triads m) i = Some r" and "validated (heap m r)"
  shows "validateTriad m i v = Inr (r, m)"
  using assms by (simp add: validateTriad_def)

theorem validateTriad_validated_noop_witness:
  "isInitialized example_store \<and>
   map_of (triads example_store) (triad_id triad_b) = Some 1 \<and>
   validated (heap example_store 1) \<and>
   validateTriad example_store (triad_id triad_b) ''seir01'' = Inr (1, example_store)"
proof -
  have i: "isInitialized example_store" by (simp add: example_store_def)
  have l: "map_of (triads example_store) (triad_id triad_b) = Some 1"
    by (simp add: example_store_def triad_a_def triad_b_def)
  have p: "validated (heap example_store 1)" by (simp add: example_store_def triad_b_def)
  show ?thesis using validateTriad_validated_noop [OF i l p, of "''seir01''"] i l p by simp
qed

text \<open>Once a call has validated a triad, every later call is that no-op.\<close>

lemma validateTriad_twice:
  assumes "validateTriad m i v = Inr (r, m')" and "validated (heap m' r)"
  shows "validateTriad m' i v' = Inr (r, m')"
  using assms
  by (auto simp: validateTriad_def Let_def split: if_splits option.splits)

subsection \<open>Creation\<close>













subsection \<open>Snapshots\<close>

lemma validateTriad_created_fields:
  assumes "validateTriad m i v = Inr (r, m')"
  shows "created_fields (heap m' q) = created_fields (heap m q)"
  using assms
  by (auto simp: validateTriad_def Let_def created_fields_def split: if_splits option.splits)

lemma validateTriad_triads:
  assumes "validateTriad m i v = Inr (r, m')"
  shows "triads m' = triads m"
  using assms
  by (auto simp: validateTriad_def Let_def split: if_splits option.splits)

lemma run_op_created_fields:
  assumes "q < nextRef m"
  shows "created_fields (heap (run_op m op) q) = created_fields (heap m q)"
proof (cases op)
  case (CreateTriad e dat vdr)
  then show ?thesis using assms
    by (auto split: sum.splits dest: createTriad_heap)
next
  case (ValidateTriad i v)
  then show ?thesis
    by (auto split: sum.splits dest: validateTriad_created_fields)
next
  case (AddValidator vid now)
  then show ?thesis
    by (auto split: sum.splits dest: addValidator_heap)
qed simp_all

lemma example_validate_attempts:
  "validationAttempts
     (heap (run_op example_store (ValidateTriad (triad_id triad_a) ''seir02'')) 0) = 1"
proof -
  have i: "isInitialized example_store" by (simp add: example_store_def)
  have l: "map_of (triads example_store) (triad_id triad_a) = Some 0"
    by (simp add: example_store_def triad_a_def)
  have h: "heap example_store 0 = triad_a" by (simp add: example_store_def)
  have a: "validationAttempts triad_a = 0" "\<not> validated triad_a" by (simp_all add: triad_a_def)
  show ?thesis
    by (simp add: validateTriad_def i l h a Let_def)
qed

text \<open>
  Claim C9, as amended. The snapshot is a shallow copy. Whatever the store does next, the
  triads a snapshot lists keep their number, their order and the fields given at creation;
  but they are the store's own objects, so after a later \<^verbatim>\<open>validateTriad\<close> the snapshot
  taken before reads, triad by triad, exactly what a snapshot taken after reads.
\<close>

theorem snapshot_shallow:
  assumes "index_allocated m"
  shows "map created_fields (view_triads (heap (run_op m op)) (getMatrixState m)) =
         map created_fields (view_triads (heap m) (getMatrixState m)) \<and>
         view_triads (heap (run_op m (ValidateTriad i v))) (getMatrixState m) =
         view_triads (heap (run_op m (ValidateTriad i v)))
           (getMatrixState (run_op m (ValidateTriad i v)))"
proof
  have "\<forall>q \<in> set (map snd (triads m)). q < nextRef m"
    using assms by (simp add: index_allocated_def list_all_iff)
  then show "map created_fields (view_triads (heap (run_op m op)) (getMatrixState m)) =
         map created_fields (view_triads (heap m) (getMatrixState m))"
    by (simp add: view_triads_def getMatrixState_def run_op_created_fields)
next
  have "triads (run_op m (ValidateTriad i v)) = triads m"
    by (auto split: sum.splits dest: validateTriad_triads)
  then show "view_triads (heap (run_op m (ValidateTriad i v))) (getMatrixState m) =
         view_triads (heap (run_op m (ValidateTriad i v)))
           (getMatrixState (run_op m (ValidateTriad i v)))"
    by (simp add: view_triads_def getMatrixState_def)
qed

theorem snapshot_shallow_witness:
  "index_allocated example_store \<and>
   map created_fields
     (view_triads (heap (run_op example_store (ValidateTriad (triad_id triad_a) ''seir02'')))
        (getMatrixState example_store)) =
   [created_fields triad_a, created_fields triad_b, created_fields triad_c] \<and>
   view_triads (heap (run_op example_store (ValidateTriad (triad_id triad_a) ''seir02'')))
     (getMatrixState example_store) =
   view_triads (heap (run_op example_store (ValidateTriad (triad_id triad_a) ''seir02'')))
     (getMatrixState (run_op example_store (ValidateTriad (triad_id triad_a) ''seir02'')))"
proof -
  have a: "index_allocated example_store"
    by (simp add: index_allocated_def example_store_def)
  have v: "map created_fields (view_triads (heap example_store) (getMatrixState example_store)) =
      [created_fields triad_a, created_fields triad_b, created_fields triad_c]"
    by (simp add: view_triads_def getMatrixState_def example_store_def)
  from snapshot_shallow [OF a, of "ValidateTriad (triad_id triad_a) ''seir02''"
        "triad_id triad_a" "''seir02''"]
  have c1: "map created_fields
     (view_triads (heap (run_op example_store (ValidateTriad (triad_id triad_a) ''seir02'')))
        (getMatrixState example_store)) =
      map created_fields (view_triads (heap example_store) (getMatrixState example_store))"
    and c2: "view_triads (heap (run_op example_store (ValidateTriad (triad_id triad_a) ''seir02'')))
     (getMatrixState example_store) =
   view_triads (heap (run_op example_store (ValidateTriad (triad_id triad_a) ''seir02'')))
     (getMatrixState (run_op example_store (ValidateTriad (triad_id triad_a) ''seir02'')))"
    by blast+
  show ?thesis
    by (intro conjI) (rule a, rule c1 [unfolded v], rule c2)
qed

text \<open>
  Claim C9 as stated: a snapshot taken before \<^verbatim>\<open>validateTriad\<close> would read the same
  afterwards. It does not: the pending triad in it now shows one validation attempt.
\<close>

theorem snapshot_live_counterexample:
  "view_triads (heap (run_op example_store (ValidateTriad (triad_id triad_a) ''seir02'')))
     (getMatrixState example_store) \<noteq>
   view_triads (heap example_store) (getMatrixState example_store)"
proof
  assume "view_triads (heap (run_op example_store (ValidateTriad (triad_id triad_a) ''seir02'')))
     (getMatrixState example_store) =
   view_triads (heap example_store) (getMatrixState example_store)"
  then have "heap (run_op example_store (ValidateTriad (triad_id triad_a) ''seir02'')) 0 =
      heap example_store 0"
    by (simp add: view_triads_def getMatrixState_def) (simp add: example_store_def)
  then have "validationAttempts
      (heap (run_op example_store (ValidateTriad (triad_id triad_a) ''seir02'')) 0) =
      validationAttempts (heap example_store 0)"
    by simp
  then have "(1::nat) = validationAttempts (heap example_store 0)"
    by (simp only: example_validate_attempts)
  then show False
    by (simp add: example_store_def triad_a_def)
qed

subsection \<open>The index of the store\<close>

lemma map_of_map_set_other: "k' \<noteq> k \<Longrightarrow> map_of (map_set kvs k v) k' = map_of kvs k'"
  by (induction kvs) auto

lemma snd_map_set:
  "(a, b) \<in> set (map_set kvs k v) \<Longrightarrow> b = v \<or> b \<in> snd ` set kvs"
  by (induction kvs) (force split: if_splits)+

lemma createTriad_index:
  assumes "createTriad m e dat vdr = Inr (r, m')"
  shows "triads m' = map_set (triads m) (generateTriadId e) (nextRef m) \<and>
         nextRef m' = Suc (nextRef m)"
  using assms
  by (auto simp: createTriad_def saveMatrixState_def Let_def split: if_splits jsval.splits)

lemma validateTriad_index:
  assumes "validateTriad m i v = Inr (r, m')"
  shows "triads m' = triads m \<and> nextRef m' = nextRef m"
  using assms
  by (auto simp: validateTriad_def Let_def split: if_splits option.splits)

lemma addValidator_index:
  assumes "addValidator m vid now = Inr (b, m')"
  shows "triads m' = triads m \<and> nextRef m' = nextRef m"
  using assms
  by (auto simp: addValidator_def saveMatrixState_def Let_def split: if_splits jsval.splits)

text \<open>
  The hypothesis of the snapshot theorem is an invariant: it holds for a new store and
  every operation keeps it.
\<close>

lemma new_TriadMatrix_index_allocated: "index_allocated (new_TriadMatrix stored opts)"
  by (simp add: index_allocated_def new_TriadMatrix_def)

lemma run_op_index_allocated:
  assumes "index_allocated m"
  shows "index_allocated (run_op m op)"
proof -
  have a: "\<forall>q \<in> snd ` set (triads m). q < nextRef m"
    using assms by (auto simp: index_allocated_def list_all_iff)
  show ?thesis
  proof (cases op)
    case (CreateTriad e dat vdr)
    show ?thesis
    proof (cases "createTriad m e dat vdr")
      case (Inl err)
      with CreateTriad assms show ?thesis by simp
    next
      case (Inr rm)
      obtain r m' where rm: "rm = (r, m')" by (cases rm)
      from createTriad_index [OF Inr [unfolded rm]]
      have t: "triads m' = map_set (triads m) (generateTriadId e) (nextRef m)"
        and n: "nextRef m' = Suc (nextRef m)" by simp_all
      have "\<forall>q \<in> snd ` set (triads m'). q < nextRef m'"
        using a by (auto simp: t n less_Suc_eq dest!: snd_map_set)
      then show ?thesis
        using CreateTriad Inr rm by (auto simp: index_allocated_def list_all_iff)
    qed
  next
    case (ValidateTriad i v)
    then show ?thesis using assms
      by (auto simp: index_allocated_def split: sum.splits
          dest: validateTriad_index)
  next
    case (AddValidator vid now)
    then show ?thesis using assms
      by (auto simp: index_allocated_def split: sum.splits dest: addValidator_index)
  qed (use assms in simp_all)
qed

text \<open>
  Seen by id: a validated triad of the index stays the validated triad of its id, unless
  \<^verbatim>\<open>createTriad\<close> draws that very id again (which \<^verbatim>\<open>this.triads.set\<close> does not check).
\<close>

lemma run_op_index_validated:
  assumes "index_allocated m" and "map_of (triads m) i = Some r" and "validated (heap m r)"
    and "\<And>e dat vdr. op = CreateTriad e dat vdr \<Longrightarrow> generateTriadId e \<noteq> i"
  shows "map_of (triads (run_op m op)) i = Some r \<and> validated (heap (run_op m op) r)"
proof -
  have "r \<in> snd ` set (triads m)"
    using assms(2) by (force dest: map_of_SomeD)
  then have r: "r < nextRef m"
    using assms(1) by (auto simp: index_allocated_def list_all_iff)
  have v: "validated (heap (run_op m op) r)"
    using r assms(3) by (rule run_op_validated)
  have "map_of (triads (run_op m op)) i = Some r"
  proof (cases op)
    case (CreateTriad e dat vdr)
    then have "generateTriadId e \<noteq> i" by (rule assms(4))
    then show ?thesis using CreateTriad assms(2)
      by (auto simp: map_of_map_set_other split: sum.splits dest!: createTriad_index)
  next
    case (ValidateTriad j v)
    then show ?thesis using assms(2)
      by (auto split: sum.splits dest: validateTriad_triads)
  next
    case (AddValidator vid now)
    then show ?thesis using assms(2)
      by (auto split: sum.splits dest: addValidator_index)
  qed (use assms(2) in simp_all)
  with v show ?thesis by simp
qed

section \<open>Properties of the gossip node and the wallet\<close>

subsection \<open>Broadcasting\<close>

lemma fold_send:
  "fold (\<lambda>(peerId, p) n'. if Some peerId \<noteq> orig
                           then sendMessage n' (peer_ws p) msg else n') ps n =
   n\<lparr> wire := wire n @ map (\<lambda>s. Send s msg)
        (map (\<lambda>kv. peer_ws (snd kv))
           (filter (\<lambda>kv. Some (fst kv) \<noteq> orig \<and> readyState n (peer_ws (snd kv)) = OPEN) ps)) \<rparr>"
proof (induction ps arbitrary: n)
  case Nil
  show ?case by simp
next
  case (Cons kv ps)
  obtain k p where kv: "kv = (k, p)" by (cases kv)
  show ?case
    by (simp add: kv Cons.IH sendMessage_def)
qed

lemma broadcast_wire:
  "broadcast n msg orig = n\<lparr> wire := wire n @ map (\<lambda>s. Send s msg) (recipients n orig) \<rparr>"
  by (simp add: broadcast_def recipients_def fold_send)





subsection \<open>A new triad from a peer\<close>




lemma example_node_facts:
  "triadMatrix example_node = Some example_store"
  "map_of (peers example_node) ''peer-1'' = Some (example_peer ''peer-1'' 101)"
  "recipients example_node (Some ''peer-1'') = [102]"
  "recipients example_node None = [101, 102]"
  "wire example_node = []"
  "networkId example_node = ''seirchain-default''"
  "readyState example_node 101 = OPEN"
  by (simp_all add: example_node_def recipients_def example_peer_def)

lemma example_store_facts:
  "isInitialized example_store"
  "db example_store (triad_key (triad_id triad_a)) = Some (DbTriad triad_a)"
  "db example_store (triad_key ''ffffffffffffffffffffffffffffffff'') = None"
  "db example_store (triad_key ''303132333435363738393a3b3c3d3eff'') = None"
  "map_of (triads example_store) (triad_id triad_a) = Some 0"
  "heap example_store 0 = triad_a"
  "nextRef example_store = 3"
  "effects example_store = []"
  by (simp_all add: example_store_def triad_key_def triad_a_def triad_b_def triad_c_def)


subsection \<open>The id of a replicated triad\<close>







subsection \<open>Handshake\<close>

lemma map_of_map_delete: "map_of (map_delete kvs k) k = None"
  by (induction kvs) (auto simp: map_delete_def)

lemma map_of_map_set: "map_of (map_set kvs k v) k = Some v"
  by (induction kvs) auto

lemma map_set_keys:
  "map_of kvs k = Some v0 \<Longrightarrow> map fst (map_set kvs k v) = map fst kvs"
  by (induction kvs) (auto split: if_splits)

lemma handshake_mismatch:
  assumes "map_of (peers n) pid = Some p" and "peer_ws p = ws" and "readyState n ws = OPEN"
    and "hs_networkId hs \<noteq> Some (networkId n)"
  shows "handleMessage n e ws (HANDSHAKE hs) pid =
         n\<lparr> readyState := (readyState n)(ws := CLOSING),
            peers := map_delete (peers n) pid,
            wire := wire n @ [Send ws (ERROR ''Network ID mismatch''), Terminate ws,
                              EmitPeer ''peerDisconnected'' pid] \<rparr>"
  using assms
  by (simp add: handleMessage_def sendMessage_def removePeer_def terminate_def Let_def)

lemma removed_peer_ignored:
  assumes "map_of (peers n) pid = None"
  shows "handleMessage n e ws msg pid = terminate n ws"
  using assms by (simp add: handleMessage_def)

text \<open>
  On an outgoing connection the handler looks the peer id up by the socket and falls back
  to the temporary id. Once the peer is removed, and no other peer holds the socket, the
  lookup finds nothing, so the id handed to \<^verbatim>\<open>handleMessage\<close> is the removed one.
\<close>

lemma findPeerIdByWs_removed:
  assumes "\<forall>kv \<in> set (peers n). peer_ws (snd kv) = ws \<longrightarrow> fst kv = pid"
  shows "findPeerIdByWs (n\<lparr> peers := map_delete (peers n) pid \<rparr>) ws = None"
proof -
  have "filter (\<lambda>(i, p). peer_ws p = ws) (map_delete (peers n) pid) = []"
    using assms by (auto simp: map_delete_def filter_empty_conv)
  then show ?thesis by (simp add: findPeerIdByWs_def)
qed

text \<open>
  Claim C8. For a handshake that arrives on the open socket of a peer of the map: if the
  network id differs, the node sends \<^verbatim>\<open>ERROR\<close>, terminates the socket, removes the peer
  and emits \<^verbatim>\<open>peerDisconnected\<close>, and every later message under that peer id is
  dropped (the socket is terminated again; peers and store stay as they are, nothing is
  sent). If the network id matches, the peer record takes the node id and address of the
  handshake and the node answers with \<^verbatim>\<open>PEERS\<close>.
\<close>

theorem handshake_network_id:
  assumes "map_of (peers n) pid = Some p" and "peer_ws p = ws" and "readyState n ws = OPEN"
  shows "(hs_networkId hs \<noteq> Some (networkId n) \<longrightarrow>
            wire (handleMessage n e ws (HANDSHAKE hs) pid) =
              wire n @ [Send ws (ERROR ''Network ID mismatch''), Terminate ws,
                        EmitPeer ''peerDisconnected'' pid] \<and>
            map_of (peers (handleMessage n e ws (HANDSHAKE hs) pid)) pid = None \<and>
            readyState (handleMessage n e ws (HANDSHAKE hs) pid) ws \<noteq> OPEN \<and>
            triadMatrix (handleMessage n e ws (HANDSHAKE hs) pid) = triadMatrix n \<and>
            (\<forall>e' msg'.
               peers (handleMessage (handleMessage n e ws (HANDSHAKE hs) pid) e' ws msg' pid) =
                 peers (handleMessage n e ws (HANDSHAKE hs) pid) \<and>
               triadMatrix (handleMessage (handleMessage n e ws (HANDSHAKE hs) pid) e' ws msg' pid) =
                 triadMatrix n \<and>
               wire (handleMessage (handleMessage n e ws (HANDSHAKE hs) pid) e' ws msg' pid) =
                 wire (handleMessage n e ws (HANDSHAKE hs) pid) @ [Terminate ws])) \<and>
         (hs_networkId hs = Some (networkId n) \<longrightarrow>
            map_of (peers (handleMessage n e ws (HANDSHAKE hs) pid)) pid =
              Some (p\<lparr> peer_nodeId := hs_nodeId hs, peer_address := hs_address hs \<rparr>) \<and>
            map fst (peers (handleMessage n e ws (HANDSHAKE hs) pid)) = map fst (peers n) \<and>
            wire (handleMessage n e ws (HANDSHAKE hs) pid) =
              wire n @ [Send ws (PEERS (getPeerAddresses (handleMessage n e ws (HANDSHAKE hs) pid)))])"
proof (intro conjI impI)
  assume ne: "hs_networkId hs \<noteq> Some (networkId n)"
  let ?n' = "handleMessage n e ws (HANDSHAKE hs) pid"
  note h = handshake_mismatch [OF assms ne, of e]
  show "wire ?n' = wire n @ [Send ws (ERROR ''Network ID mismatch''), Terminate ws,
                        EmitPeer ''peerDisconnected'' pid]"
    by (simp add: h)
  show gone: "map_of (peers ?n') pid = None"
    by (simp add: h map_of_map_delete)
  show "readyState ?n' ws \<noteq> OPEN" by (simp add: h)
  show tm: "triadMatrix ?n' = triadMatrix n" by (simp add: h)
  show "\<forall>e' msg'.
               peers (handleMessage ?n' e' ws msg' pid) = peers ?n' \<and>
               triadMatrix (handleMessage ?n' e' ws msg' pid) = triadMatrix n \<and>
               wire (handleMessage ?n' e' ws msg' pid) = wire ?n' @ [Terminate ws]"
    by (simp add: removed_peer_ignored [OF gone] terminate_def tm)
next
  assume eq: "hs_networkId hs = Some (networkId n)"
  let ?n' = "handleMessage n e ws (HANDSHAKE hs) pid"
  let ?n1 = "n\<lparr> peers := map_set (peers n) pid
                 (p\<lparr> peer_nodeId := hs_nodeId hs, peer_address := hs_address hs \<rparr>) \<rparr>"
  have h: "?n' = ?n1\<lparr> wire := wire n @ [Send ws (PEERS (getPeerAddresses ?n1))] \<rparr>"
    using assms eq by (simp add: handleMessage_def sendMessage_def Let_def)
  have a: "getPeerAddresses ?n' = getPeerAddresses ?n1"
    by (simp add: h getPeerAddresses_def)
  show "map_of (peers ?n') pid =
      Some (p\<lparr> peer_nodeId := hs_nodeId hs, peer_address := hs_address hs \<rparr>)"
    by (simp add: h map_of_map_set)
  show "map fst (peers ?n') = map fst (peers n)"
    using assms(1) by (simp add: h map_set_keys)
  show "wire ?n' = wire n @ [Send ws (PEERS (getPeerAddresses ?n'))]"
    by (simp only: a) (simp add: h)
qed

theorem handshake_network_id_witness:
  "map_of (peers example_node) ''peer-1'' = Some (example_peer ''peer-1'' 101) \<and>
   peer_ws (example_peer ''peer-1'' 101) = 101 \<and> readyState example_node 101 = OPEN \<and>
   hs_networkId (example_handshake ''other-net'') \<noteq> Some (networkId example_node) \<and>
   wire (handleMessage example_node example_entropy 101
          (HANDSHAKE (example_handshake ''other-net'')) ''peer-1'') =
     [Send 101 (ERROR ''Network ID mismatch''), Terminate 101,
      EmitPeer ''peerDisconnected'' ''peer-1''] \<and>
   map_of (peers (handleMessage example_node example_entropy 101
          (HANDSHAKE (example_handshake ''other-net'')) ''peer-1'')) ''peer-1'' = None \<and>
   triadMatrix (handleMessage (handleMessage example_node example_entropy 101
          (HANDSHAKE (example_handshake ''other-net'')) ''peer-1'')
        example_entropy 101 (NEW_TRIAD triad_a) ''peer-1'') = Some example_store \<and>
   wire (handleMessage (handleMessage example_node example_entropy 101
          (HANDSHAKE (example_handshake ''other-net'')) ''peer-1'')
        example_entropy 101 (NEW_TRIAD triad_a) ''peer-1'') =
     [Send 101 (ERROR ''Network ID mismatch''), Terminate 101,
      EmitPeer ''peerDisconnected'' ''peer-1'', Terminate 101] \<and>
   hs_networkId (example_handshake ''seirchain-default'') = Some (networkId example_node) \<and>
   map_of (peers (handleMessage example_node example_entropy 101
          (HANDSHAKE (example_handshake ''seirchain-default'')) ''peer-1'')) ''peer-1'' =
     Some (example_peer ''peer-1'' 101
            \<lparr> peer_nodeId := Some ''node-9'', peer_address := Some ''ws://10.0.0.9:6001'' \<rparr>) \<and>
   (\<exists>addrs. wire (handleMessage example_node example_entropy 101
          (HANDSHAKE (example_handshake ''seirchain-default'')) ''peer-1'') =
     [Send 101 (PEERS addrs)])"
proof -
  let ?bad = "example_handshake ''other-net''"
  let ?good = "example_handshake ''seirchain-default''"
  have p: "map_of (peers example_node) ''peer-1'' = Some (example_peer ''peer-1'' 101)"
    and w: "peer_ws (example_peer ''peer-1'' 101) = 101"
    and r: "readyState example_node 101 = OPEN"
    by (simp_all add: example_node_facts) (simp add: example_peer_def)
  have b: "hs_networkId ?bad \<noteq> Some (networkId example_node)"
    and g: "hs_networkId ?good = Some (networkId example_node)"
    and f: "hs_nodeId ?good = Some ''node-9''" "hs_address ?good = Some ''ws://10.0.0.9:6001''"
    by (simp_all add: example_handshake_def example_node_facts)
  note bad = handshake_network_id [OF p w r, where hs = ?bad and e = example_entropy]
  note good = handshake_network_id [OF p w r, where hs = ?good and e = example_entropy]
  have 1: "wire (handleMessage example_node example_entropy 101 (HANDSHAKE ?bad) ''peer-1'') =
     [Send 101 (ERROR ''Network ID mismatch''), Terminate 101,
      EmitPeer ''peerDisconnected'' ''peer-1'']"
    using bad b by (simp add: example_node_facts)
  have 2: "map_of (peers (handleMessage example_node example_entropy 101
          (HANDSHAKE ?bad) ''peer-1'')) ''peer-1'' = None"
    using bad b by blast
  have 3: "triadMatrix (handleMessage (handleMessage example_node example_entropy 101
          (HANDSHAKE ?bad) ''peer-1'') example_entropy 101 (NEW_TRIAD triad_a) ''peer-1'') =
       Some example_store"
    using bad b by (simp add: example_node_facts)
  have 4: "wire (handleMessage (handleMessage example_node example_entropy 101
          (HANDSHAKE ?bad) ''peer-1'') example_entropy 101 (NEW_TRIAD triad_a) ''peer-1'') =
     [Send 101 (ERROR ''Network ID mismatch''), Terminate 101,
      EmitPeer ''peerDisconnected'' ''peer-1'', Terminate 101]"
    using bad b by (simp add: example_node_facts)
  have 5: "map_of (peers (handleMessage example_node example_entropy 101
          (HANDSHAKE ?good) ''peer-1'')) ''peer-1'' =
     Some (example_peer ''peer-1'' 101
            \<lparr> peer_nodeId := Some ''node-9'', peer_address := Some ''ws://10.0.0.9:6001'' \<rparr>)"
    using good g by (simp add: f)
  have 6: "\<exists>addrs. wire (handleMessage example_node example_entropy 101
          (HANDSHAKE ?good) ''peer-1'') = [Send 101 (PEERS addrs)]"
    using good g by (simp add: example_node_facts)
  show ?thesis
    using p w r b g 1 2 3 4 5 6 by blast
qed

text \<open>What the node answers to the matching handshake of the example.\<close>

lemma example_handshake_reply:
  "wire (handleMessage example_node example_entropy 101
          (HANDSHAKE (example_handshake ''seirchain-default'')) ''peer-1'') =
     [Send 101 (PEERS [''ws://10.0.0.9:6001''])]"
  by (simp add: handleMessage_def example_node_def example_handshake_def example_peer_def
      sendMessage_def getPeerAddresses_def Let_def)

subsection \<open>A validation announced by a peer\<close>

text \<open>
  Claim C5 fails in the handler of \<^verbatim>\<open>TRIAD_VALIDATED_CONFIRMATION\<close>. The handler updates
  the copy that \<^verbatim>\<open>getTriad\<close> read from the database and writes it back; the triad object
  of the in-memory index is never touched, and the message has been re-broadcast before
  the write. After the handler the durable record is validated and the in-memory triad
  of the same id is not.
\<close>

theorem triad_validated_gossip_leaves_memory_stale:
  "\<exists>s'. triadMatrix (handleMessage example_node example_entropy 101
             (TRIAD_VALIDATED triad_a_validated) ''peer-1'') = Some s' \<and>
        db s' (triad_key (triad_id triad_a)) = Some (DbTriad triad_a_validated) \<and>
        validated triad_a_validated \<and>
        map_of (triads s') (triad_id triad_a) = Some 0 \<and>
        heap s' 0 = triad_a \<and>
        \<not> validated (heap s' 0) \<and>
        effects s' = [DbPut (triad_key (triad_id triad_a)) (DbTriad triad_a_validated)] \<and>
        wire (handleMessage example_node example_entropy 101
             (TRIAD_VALIDATED triad_a_validated) ''peer-1'') =
          [Send 102 (TRIAD_VALIDATED triad_a_validated)]"
proof -
  have i: "triad_id triad_a_validated = triad_id triad_a" "triad_id triad_a \<noteq> []"
    "validated triad_a_validated" "\<not> validated triad_a"
    by (simp_all add: triad_a_validated_def triad_a_def)
  show ?thesis
    by (simp add: handleMessage_def example_node_facts getTriad_def example_store_facts i
        broadcast_wire Let_def)
qed

text \<open>
  A later \<^verbatim>\<open>validateTriad\<close> scores the stale in-memory triad and overwrites the durable
  record with it, whatever that record said.
\<close>

lemma calculateConsensus_db:
  "calculateConsensus (m\<lparr> db := d \<rparr>) t v = calculateConsensus m t v"
proof -
  have s: "\<And>a b. calculateConnectionScore (m\<lparr> db := d \<rparr>) a b = calculateConnectionScore m a b"
    by (simp add: calculateConnectionScore_def Let_def cong: if_cong)
  have g: "getTriadConnections (m\<lparr> db := d \<rparr>) t = getTriadConnections m t"
    by (simp add: getTriadConnections_def Let_def)
  show ?thesis
    by (simp add: calculateConsensus_def s g Let_def cong: if_cong)
qed

lemma durable_validated_reverts:
  assumes "isInitialized m" and "map_of (triads m) i = Some r" and "\<not> validated (heap m r)"
    and "calculateConsensus m (heap m r) v < consensusThreshold m"
  shows "\<exists>m'. validateTriad (m\<lparr> db := (db m)(triad_key i \<mapsto> DbTriad t) \<rparr>) i v = Inr (r, m') \<and>
           db m' (triad_key i) = Some (DbTriad (heap m' r)) \<and> \<not> validated (heap m' r)"
  using assms
  by (simp add: validateTriad_def Let_def calculateConsensus_db)

subsection \<open>Importing a private key\<close>

lemma import_invalid_format:
  "\<not> privateKeyFormat hex \<Longrightarrow> importFromPrivateKey lib w hex = (Inl InvalidFormat, w)"
  by (simp add: importFromPrivateKey_def)

text \<open>
  Claim C10, as amended. An input that is not exactly 64 hexadecimal characters fails
  with \<open>InvalidFormat\<close> and leaves the wallet as it was; a failure of the library during
  the import fails with \<open>ImportFailed\<close> and leaves key pair, public key and address
  null; a successful import stores the key pair, the public key and the address derived
  from it.
\<close>

theorem import_private_key:
  "(\<not> privateKeyFormat hex \<longrightarrow> importFromPrivateKey lib w hex = (Inl InvalidFormat, w)) \<and>
   (privateKeyFormat hex \<and> import_failure lib hex = Some err \<longrightarrow>
      importFromPrivateKey lib w hex =
        (Inl (ImportFailed (''Failed to import private key: '' @ err)),
         w\<lparr> keyPair := None, publicKey := None, address := None \<rparr>)) \<and>
   (privateKeyFormat hex \<and> keyFromPrivate lib hex = Inr kp \<and> getPublic lib kp = Inr pub \<and>
    generateAddress lib pub = Inr addr \<longrightarrow>
      importFromPrivateKey lib w hex =
        (Inr True, w\<lparr> keyPair := Some kp, publicKey := Some pub, address := addr \<rparr>))"
  by (auto simp: importFromPrivateKey_def import_failure_def Let_def split: sum.splits)

lemma example_key_format:
  "privateKeyFormat (replicate 64 CHR ''0'')" "privateKeyFormat (replicate 64 CHR ''b'')"
  "\<not> privateKeyFormat ''xyz''"
  by (simp_all add: privateKeyFormat_def isHexChar_def list_all_iff)

theorem import_private_key_witness:
  "\<not> privateKeyFormat ''xyz'' \<and>
   importFromPrivateKey example_curve example_wallet ''xyz'' = (Inl InvalidFormat, example_wallet) \<and>
   privateKeyFormat (replicate 64 CHR ''0'') \<and>
   import_failure example_curve (replicate 64 CHR ''0'') = Some ''infinity'' \<and>
   importFromPrivateKey example_curve example_wallet (replicate 64 CHR ''0'') =
     (Inl (ImportFailed ''Failed to import private key: infinity''),
      \<lparr> keyPair = None, address = None, publicKey = None \<rparr>) \<and>
   privateKeyFormat (replicate 64 CHR ''b'') \<and>
   importFromPrivateKey example_curve example_wallet (replicate 64 CHR ''b'') =
     (Inr True,
      \<lparr> keyPair = Some (replicate 64 CHR ''b''),
        address = Some (''seir'' @ replicate 36 CHR ''b''),
        publicKey = Some (''02'' @ replicate 64 CHR ''b'') \<rparr>)"
proof -
  have k: "keyFromPrivate example_curve = Inr"
    and gz: "getPublic example_curve (replicate 64 CHR ''0'') = Inl ''infinity''"
    and gb: "getPublic example_curve (replicate 64 CHR ''b'') = Inr (''02'' @ replicate 64 CHR ''b'')"
    by (simp_all add: example_curve_def fun_eq_iff)
  have ab: "generateAddress example_curve (''02'' @ replicate 64 CHR ''b'') =
      Inr (Some (''seir'' @ replicate 36 CHR ''b''))"
    by (simp add: generateAddress_def example_curve_def)
  have fz: "import_failure example_curve (replicate 64 CHR ''0'') = Some ''infinity''"
    by (simp add: import_failure_def k gz)
  have 1: "importFromPrivateKey example_curve example_wallet ''xyz'' =
      (Inl InvalidFormat, example_wallet)"
    using import_private_key [where hex = "''xyz''" and lib = example_curve and w = example_wallet]
      example_key_format by blast
  have 2: "importFromPrivateKey example_curve example_wallet (replicate 64 CHR ''0'') =
     (Inl (ImportFailed (''Failed to import private key: '' @ ''infinity'')),
      example_wallet\<lparr> keyPair := None, publicKey := None, address := None \<rparr>)"
    using import_private_key [where hex = "replicate 64 CHR ''0''" and lib = example_curve
        and w = example_wallet and err = "''infinity''"] example_key_format fz by blast
  have 3: "importFromPrivateKey example_curve example_wallet (replicate 64 CHR ''b'') =
     (Inr True, example_wallet\<lparr> keyPair := Some (replicate 64 CHR ''b''),
        publicKey := Some (''02'' @ replicate 64 CHR ''b''),
        address := Some (''seir'' @ replicate 36 CHR ''b'') \<rparr>)"
    using import_private_key [where hex = "replicate 64 CHR ''b''" and lib = example_curve
        and w = example_wallet and kp = "replicate 64 CHR ''b''"
        and pub = "''02'' @ replicate 64 CHR ''b''"
        and addr = "Some (''seir'' @ replicate 36 CHR ''b'')"] example_key_format k gb ab
    by simp
  show ?thesis
    using example_key_format fz 1 2 3 by (simp add: example_wallet_def)
qed

text \<open>
  Claim C10 as stated has no key loaded after \<open>InvalidFormat\<close>. A wallet that held a key
  before the call still holds it.
\<close>

theorem import_keeps_loaded_key_counterexample:
  "\<not> privateKeyFormat ''xyz'' \<and>
   fst (importFromPrivateKey example_curve example_wallet ''xyz'') = Inl InvalidFormat \<and>
   keyPair (snd (importFromPrivateKey example_curve example_wallet ''xyz'')) =
     Some (replicate 64 CHR ''a'')"
  by (simp add: import_invalid_format example_key_format) (simp add: example_wallet_def)

end
